theory Spec2Isabelle
  imports Main "HOL-Library.Char_ord" "HOL-Library.List_Lexorder" "HOL-Library.Word"
begin

section \<open>Text values\<close>

text \<open>
  Python \<open>str\<close> values and SQLite \<open>TEXT\<close> values are modelled by their UTF-8 encoding, a
  \<^typ>\<open>string\<close> (a list of 8-bit characters). The encoding is injective, so equality of
  texts is equality of strings, the empty text is the empty list and concatenation is
  \<open>@\<close>. A Python \<open>str\<close> that has no UTF-8 encoding is outside the model. SQLite
  compares two \<open>TEXT\<close> values under its default \<open>BINARY\<close> collation byte by byte, a
  proper prefix being smaller: this is the order \<open><\<close> on \<^typ>\<open>string\<close> given by the
  lexicographic order on lists over the order of characters by code.

  The program's literals are Russian; each is given here by its bytes, under the name the
  specification uses for it.
\<close>

definition Pending :: string where
  \<comment> \<open>the status literal of \<open>add_reminder\<close> and of the scheduler's filter\<close>
  "Pending = [CHR 0xD0, CHR 0x9E, CHR 0xD0, CHR 0xB6, CHR 0xD0, CHR 0xB8, CHR 0xD0, CHR 0xB4,
              CHR 0xD0, CHR 0xB0, CHR 0xD0, CHR 0xB5, CHR 0xD1, CHR 0x82]"

definition Completed :: string where
  "Completed = [CHR 0xD0, CHR 0x92, CHR 0xD1, CHR 0x8B, CHR 0xD0, CHR 0xBF, CHR 0xD0, CHR 0xBE,
                CHR 0xD0, CHR 0xBB, CHR 0xD0, CHR 0xBD, CHR 0xD0, CHR 0xB5, CHR 0xD0, CHR 0xBD,
                CHR 0xD0, CHR 0xBE]"

definition Overdue :: string where
  "Overdue = [CHR 0xD0, CHR 0x9F, CHR 0xD1, CHR 0x80, CHR 0xD0, CHR 0xBE, CHR 0xD1, CHR 0x81,
              CHR 0xD1, CHR 0x80, CHR 0xD0, CHR 0xBE, CHR 0xD1, CHR 0x87, CHR 0xD0, CHR 0xB5,
              CHR 0xD0, CHR 0xBD, CHR 0xD0, CHR 0xBE]"

definition Cancelled :: string where
  "Cancelled = [CHR 0xD0, CHR 0x9E, CHR 0xD1, CHR 0x82, CHR 0xD0, CHR 0xBC, CHR 0xD0, CHR 0xB5,
                CHR 0xD0, CHR 0xBD, CHR 0xD0, CHR 0xB5, CHR 0xD0, CHR 0xBD, CHR 0xD0, CHR 0xBE]"

definition All_statuses :: string where
  \<comment> \<open>the filter value that selects every row\<close>
  "All_statuses = [CHR 0xD0, CHR 0x92, CHR 0xD1, CHR 0x81, CHR 0xD0, CHR 0xB5]"

definition notification_title_prefix :: string where
  \<comment> \<open>the scheduler's title prefix, ending in a colon and a space\<close>
  "notification_title_prefix =
     [CHR 0xD0, CHR 0x9D, CHR 0xD0, CHR 0xB0, CHR 0xD0, CHR 0xBF, CHR 0xD0, CHR 0xBE,
      CHR 0xD0, CHR 0xBC, CHR 0xD0, CHR 0xB8, CHR 0xD0, CHR 0xBD, CHR 0xD0, CHR 0xB0,
      CHR 0xD0, CHR 0xBD, CHR 0xD0, CHR 0xB8, CHR 0xD0, CHR 0xB5, CHR 0x3A, CHR 0x20]"

definition default_message :: string where
  \<comment> \<open>the scheduler's message for a reminder with an empty description\<close>
  "default_message =
     [CHR 0xD0, CHR 0x92, CHR 0xD1, CHR 0x80, CHR 0xD0, CHR 0xB5, CHR 0xD0, CHR 0xBC,
      CHR 0xD1, CHR 0x8F, CHR 0x20, CHR 0xD0, CHR 0xBF, CHR 0xD1, CHR 0x80, CHR 0xD0,
      CHR 0xB8, CHR 0xD1, CHR 0x88, CHR 0xD0, CHR 0xBB, CHR 0xD0, CHR 0xBE, CHR 0x21]"

definition snooze_note_head :: string where
  \<comment> \<open>two line feeds and the words before the number of minutes\<close>
  "snooze_note_head =
     [CHR 0x0A, CHR 0x0A, CHR 0xD0, CHR 0x9E, CHR 0xD1, CHR 0x82, CHR 0xD0, CHR 0xBB,
      CHR 0xD0, CHR 0xBE, CHR 0xD0, CHR 0xB6, CHR 0xD0, CHR 0xB5, CHR 0xD0, CHR 0xBD,
      CHR 0xD0, CHR 0xBE, CHR 0x20, CHR 0xD0, CHR 0xBD, CHR 0xD0, CHR 0xB0, CHR 0x20]"

definition snooze_note_mid :: string where
  \<comment> \<open>the words between the number of minutes and the time of day\<close>
  "snooze_note_mid =
     [CHR 0x20, CHR 0xD0, CHR 0xBC, CHR 0xD0, CHR 0xB8, CHR 0xD0, CHR 0xBD, CHR 0x2E,
      CHR 0x20, CHR 0xD0, CHR 0xB2, CHR 0x20]"

section \<open>Decimal text\<close>

definition digit_char :: "nat \<Rightarrow> char" where
  "digit_char d = ''0123456789'' ! (d mod 10)"

definition pad2 :: "nat \<Rightarrow> string" where
  \<comment> \<open>\<open>'%02d'\<close> of a number below 100\<close>
  "pad2 n = [digit_char (n div 10), digit_char n]"

definition pad4 :: "nat \<Rightarrow> string" where
  \<comment> \<open>\<open>'%04d'\<close> of a number below 10000\<close>
  "pad4 n = pad2 (n div 100) @ pad2 (n mod 100)"

definition pad6 :: "nat \<Rightarrow> string" where
  \<comment> \<open>\<open>'%06d'\<close> of a number below 1000000\<close>
  "pad6 n = pad2 (n div 10000) @ pad4 (n mod 10000)"

fun str_nat :: "nat \<Rightarrow> string" where
  "str_nat n = (if n < 10 then [digit_char n] else str_nat (n div 10) @ [digit_char n])"

declare str_nat.simps [simp del]

definition str_int :: "int \<Rightarrow> string" where
  \<comment> \<open>Python's \<open>str\<close> of an \<open>int\<close>, which is what an f-string field prints\<close>
  "str_int i = (if i < 0 then CHR ''-'' # str_nat (nat (- i)) else str_nat (nat i))"

definition digit_val :: "char \<Rightarrow> nat option" where
  \<comment> \<open>the value of an ASCII digit, \<open>None\<close> for every other character\<close>
  "digit_val c = map_of [(CHR ''0'', 0), (CHR ''1'', 1), (CHR ''2'', 2), (CHR ''3'', 3),
                         (CHR ''4'', 4), (CHR ''5'', 5), (CHR ''6'', 6), (CHR ''7'', 7),
                         (CHR ''8'', 8), (CHR ''9'', 9)] c"

fun parse_digits :: "string \<Rightarrow> nat option" where
  \<comment> \<open>a non-empty run of ASCII digits read as a decimal number\<close>
  "parse_digits [] = None"
| "parse_digits cs =
     foldl (\<lambda>acc c. case (acc, digit_val c) of (Some a, Some d) \<Rightarrow> Some (10 * a + d) | _ \<Rightarrow> None)
           (Some 0) cs"

section \<open>The datetime library\<close>

text \<open>
  The program reads the clock with \<open>datetime.now()\<close>, which gives a naive \<open>datetime\<close>:
  a day of the proleptic Gregorian calendar and a time of day with microseconds, from
  \<open>0001-01-01T00:00:00\<close> to \<open>9999-12-31T23:59:59.999999\<close>. A naive datetime is modelled
  by the number of microseconds since \<open>0001-01-01T00:00:00\<close>, an \<^typ>\<open>int\<close>; Python
  orders naive datetimes by their fields, which is the order of these numbers. Adding a
  \<open>timedelta\<close> adds microseconds and raises \<open>OverflowError\<close> outside the range.
  The calendar functions follow the library's \<open>_ymd2ord\<close> and \<open>_ord2ymd\<close>.
\<close>

definition is_leap :: "int \<Rightarrow> bool" where
  \<comment> \<open>\<open>year % 4 == 0 and (year % 100 != 0 or year % 400 == 0)\<close>\<close>
  "is_leap year \<longleftrightarrow> year mod 4 = 0 \<and> (if year mod 100 = 0 then year mod 400 = 0 else True)"

definition days_before_year :: "int \<Rightarrow> int" where
  "days_before_year year = (let y = year - 1 in y * 365 + y div 4 - y div 100 + y div 400)"

definition days_in_month :: "int \<Rightarrow> int \<Rightarrow> int" where
  \<comment> \<open>the library's table has 13 entries and is read at months 1 to 12 only\<close>
  "days_in_month year month =
     (if month = 2 \<and> is_leap year then 29
      else [0, 31, 28, 31, 30, 31, 30, 31, 31, 30, 31, 30, 31] ! (nat month mod 13))"

definition days_before_month :: "int \<Rightarrow> int \<Rightarrow> int" where
  "days_before_month year month =
     [0, 0, 31, 59, 90, 120, 151, 181, 212, 243, 273, 304, 334] ! (nat month mod 13)
     + (if month > 2 \<and> is_leap year then 1 else 0)"

definition ymd2ord :: "int \<Rightarrow> int \<Rightarrow> int \<Rightarrow> int" where
  \<comment> \<open>the ordinal of a date, \<open>0001-01-01\<close> being day 1\<close>
  "ymd2ord year month day = days_before_year year + days_before_month year month + day"

definition ord2ymd :: "int \<Rightarrow> int \<times> int \<times> int" where
  \<comment> \<open>the date of an ordinal, by the cycles of 400, 100, 4 and 1 years\<close>
  "ord2ymd ordinal =
     (let n = ordinal - 1;
          n400 = n div 146097; n = n mod 146097;
          n100 = n div 36524; n = n mod 36524;
          n4 = n div 1461; n = n mod 1461;
          n1 = n div 365; n = n mod 365;
          year = n400 * 400 + 1 + n100 * 100 + n4 * 4 + n1
      in if n1 = 4 \<or> n100 = 4 then (year - 1, 12, 31)
         else
           let month = (n + 50) div 32;
               preceding = days_before_month year month
           in if preceding > n
              then (year, month - 1, n - (preceding - days_in_month year (month - 1)) + 1)
              else (year, month, n - preceding + 1))"

definition MAX_DATETIME :: int where
  \<comment> \<open>\<open>datetime.max\<close>, the last microsecond of day 3652059\<close>
  "MAX_DATETIME = 3652059 * 86400000000 - 1"

definition datetime :: "int \<Rightarrow> int \<Rightarrow> int \<Rightarrow> int \<Rightarrow> int \<Rightarrow> int \<Rightarrow> int \<Rightarrow> int" where
  \<comment> \<open>the constructor \<open>datetime(year, month, day, hour, minute, second, microsecond)\<close>
      at fields that are in range\<close>
  "datetime year month day hour minute second microsecond =
     (((ymd2ord year month day - 1) * 24 + hour) * 60 + minute) * 60000000
       + second * 1000000 + microsecond"

definition timedelta_minutes :: "int \<Rightarrow> int" where
  \<comment> \<open>\<open>timedelta(minutes=m)\<close> in microseconds\<close>
  "timedelta_minutes m = m * 60000000"

definition datetime_add :: "int \<Rightarrow> int \<Rightarrow> int option" where
  \<comment> \<open>\<open>dt + delta\<close>; \<open>None\<close> is \<open>OverflowError\<close>\<close>
  "datetime_add dt delta =
     (let r = dt + delta in if 0 \<le> r \<and> r \<le> MAX_DATETIME then Some r else None)"

definition strftime_HMS :: "int \<Rightarrow> string" where
  \<comment> \<open>\<open>dt.strftime('%H:%M:%S')\<close>\<close>
  "strftime_HMS dt =
     (let s = dt div 1000000 mod 86400
      in pad2 (nat (s div 3600)) @ '':'' @ pad2 (nat (s div 60 mod 60)) @ '':''
           @ pad2 (nat (s mod 60)))"

definition isoformat :: "int \<Rightarrow> string" where
  \<comment> \<open>\<open>dt.isoformat()\<close> of a naive datetime: \<open>YYYY-MM-DDTHH:MM:SS\<close>, followed by
      \<open>.ffffff\<close> when the microsecond is not zero\<close>
  "isoformat dt =
     (case ord2ymd (dt div 86400000000 + 1) of (year, month, day) \<Rightarrow>
        pad4 (nat year) @ ''-'' @ pad2 (nat month) @ ''-'' @ pad2 (nat day) @ ''T''
          @ strftime_HMS dt
          @ (let us = dt mod 1000000 in if us \<noteq> 0 then ''.'' @ pad6 (nat us) else []))"

text \<open>
  \<open>datetime.fromisoformat\<close> is modelled on the grammar its documentation gives,
  \<open>YYYY-MM-DD[*HH[:MM[:SS[.fff[fff]]]][+HH:MM[:SS[.ffffff]]]]\<close>, where \<open>*\<close> is any single
  character and the offset's sign is \<open>+\<close> or \<open>-\<close>, followed by the range checks of the
  \<open>datetime\<close> and \<open>timezone\<close> constructors. A text with an offset gives an aware datetime.
  Every failure is a \<open>ValueError\<close> in Python and \<open>None\<close> here.

  Which texts outside this grammar are accepted differs between Python versions. The
  operations of the program that parse a text therefore take the parser as an argument,
  and what is proved of them in general holds for every parser; \<open>fromisoformat\<close> is the
  parser of the concrete runs, all of them on texts of this grammar.
\<close>

datatype parsed_datetime =
    Naive int         \<comment> \<open>the microseconds of the local time\<close>
  | Aware int int     \<comment> \<open>the local time and the UTC offset, both in microseconds\<close>

definition parse_isoformat_date :: "string \<Rightarrow> (int \<times> int \<times> int) option" where
  \<comment> \<open>the ten characters \<open>YYYY-MM-DD\<close>\<close>
  "parse_isoformat_date ds =
     (if length ds = 10 \<and> ds ! 4 = CHR ''-'' \<and> ds ! 7 = CHR ''-''
      then (case (parse_digits (take 4 ds), parse_digits (take 2 (drop 5 ds)),
                  parse_digits (drop 8 ds)) of
              (Some y, Some m, Some d) \<Rightarrow> Some (int y, int m, int d)
            | _ \<Rightarrow> None)
      else None)"

definition two_digits :: "string \<Rightarrow> nat \<Rightarrow> int option" where
  \<comment> \<open>the two-digit field at a position\<close>
  "two_digits ts pos = map_option int (parse_digits (take 2 (drop pos ts)))"

definition parse_hh_mm_ss_ff :: "string \<Rightarrow> (int \<times> int \<times> int \<times> int) option" where
  \<comment> \<open>\<open>HH[:MM[:SS[.fff[fff]]]]\<close>: 2, 5, 8, 12 or 15 characters\<close>
  "parse_hh_mm_ss_ff ts =
     (let n = length ts;
          hh = two_digits ts 0;
          mm = (if 5 \<le> n then if ts ! 2 = CHR '':'' then two_digits ts 3 else None
                else Some 0);
          ss = (if 8 \<le> n then if ts ! 5 = CHR '':'' then two_digits ts 6 else None
                else Some 0);
          ff = (if 12 \<le> n
                then if ts ! 8 = CHR ''.''
                     then map_option (\<lambda>f. if n = 12 then int f * 1000 else int f)
                            (parse_digits (drop 9 ts))
                     else None
                else Some 0)
      in if n = 2 \<or> n = 5 \<or> n = 8 \<or> n = 12 \<or> n = 15
         then (case (hh, mm, ss, ff) of
                 (Some h, Some m, Some s, Some f) \<Rightarrow> Some (h, m, s, f)
               | _ \<Rightarrow> None)
         else None)"

definition parse_isoformat_time :: "string \<Rightarrow> ((int \<times> int \<times> int \<times> int) \<times> int option) option" where
  \<comment> \<open>the time of day and, from the first sign character on, the UTC offset, which the
      \<open>timezone\<close> constructor wants strictly inside 24 hours\<close>
  "parse_isoformat_time tstr =
     (let is_sign = (\<lambda>c. c = CHR ''+'' \<or> c = CHR ''-'');
          timestr = takeWhile (\<lambda>c. \<not> is_sign c) tstr;
          tzstr = dropWhile (\<lambda>c. \<not> is_sign c) tstr
      in case (parse_hh_mm_ss_ff timestr, tzstr) of
           (None, _) \<Rightarrow> None
         | (Some time_comps, []) \<Rightarrow> Some (time_comps, None)
         | (Some time_comps, sign # tz) \<Rightarrow>
             (case (if length tz = 5 \<or> length tz = 8 \<or> length tz = 15
                    then parse_hh_mm_ss_ff tz else None) of
                None \<Rightarrow> None
              | Some (h, m, s, us) \<Rightarrow>
                  (let td = ((h * 60 + m) * 60 + s) * 1000000 + us;
                       off = (if sign = CHR ''-'' then - td else td)
                   in if td < 86400000000 then Some (time_comps, Some off) else None)))"

definition drop_separator :: "string \<Rightarrow> string" where
  \<comment> \<open>the text after its first character, which takes 1 to 4 bytes of UTF-8\<close>
  "drop_separator s =
     (case s of [] \<Rightarrow> []
      | c # cs \<Rightarrow>
          let b = (of_char c :: nat)
          in if b < 128 then cs else if b < 224 then drop 1 cs
             else if b < 240 then drop 2 cs else drop 3 cs)"

type_synonym iso_parser = "string \<Rightarrow> parsed_datetime option"

definition fromisoformat :: iso_parser where
  "fromisoformat date_string =
     (case parse_isoformat_date (take 10 date_string) of None \<Rightarrow> None
      | Some (year, month, day) \<Rightarrow>
          (case (if length date_string = 10 then Some ((0, 0, 0, 0), None)
                 else parse_isoformat_time (drop_separator (drop 10 date_string))) of
             None \<Rightarrow> None
           | Some ((hour, minute, second, microsecond), tz) \<Rightarrow>
               if 1 \<le> year \<and> year \<le> 9999 \<and> 1 \<le> month \<and> month \<le> 12
                  \<and> 1 \<le> day \<and> day \<le> days_in_month year month
                  \<and> hour < 24 \<and> minute < 60 \<and> second < 60
               then (let t = datetime year month day hour minute second microsecond
                     in case tz of None \<Rightarrow> Some (Naive t) | Some off \<Rightarrow> Some (Aware t off))
               else None))"

section \<open>The reminder store (database.py)\<close>

text \<open>
  A row of the table \<open>reminders\<close> has the columns \<open>id\<close>, \<open>title\<close>, \<open>description\<close>,
  \<open>due_datetime\<close> and \<open>status\<close>. The column \<open>id\<close> is an \<open>INTEGER PRIMARY KEY\<close>, a signed
  integer of 64 bits: it is the field \<open>rowid\<close> here, and \<open>rid\<close> is its value as Python
  reads it, an \<open>int\<close>. The other columns are \<open>TEXT\<close>. The table is the list of its rows
  in insertion order together with the counter that \<open>AUTOINCREMENT\<close> keeps. A \<open>Database\<close>
  object whose connection failed has \<open>conn = None\<close>.

  Python's \<open>int\<close> is unbounded. Binding one that does not fit 64 bits to a statement
  raises \<open>OverflowError\<close>, which is not an \<open>sqlite3.Error\<close>: it leaves \<open>update_reminder\<close>
  and \<open>update_reminder_status\<close> through their \<open>except sqlite3.Error\<close>, the statement not
  having run. Of the failures of SQLite itself (\<open>sqlite3.Error\<close>) the model has the one of
  an \<open>INSERT\<close> when the ids are used up; the others (input and output, a full disk)
  are outside it, and so is the lock, every operation running to its end before the
  next starts.
\<close>

datatype error = RuntimeError | ValueError | TypeError | OverflowError

datatype pyvalue = PyNone | PyInt int

type_synonym 'a result = "error + 'a"

record reminder =
  rowid :: "64 word"
  title :: string
  description :: string
  due_datetime :: string
  status :: string

record connection =
  rows :: "reminder list"
  seq :: "64 word"

record database =
  conn :: "connection option"

datatype printed = DEBUG_marked_overdue nat
  \<comment> \<open>the line \<open>update_overdue_reminders\<close> prints, with the number it shows\<close>

definition rid :: "reminder \<Rightarrow> int" where
  \<comment> \<open>\<open>reminder[0]\<close>, the id of a fetched row\<close>
  "rid r = sint (rowid r)"

definition fits_int64 :: "int \<Rightarrow> bool" where
  \<comment> \<open>whether an \<open>int\<close> can be bound as an SQLite \<open>INTEGER\<close>\<close>
  "fits_int64 i \<longleftrightarrow> - 9223372036854775808 \<le> i \<and> i \<le> 9223372036854775807"

definition with_rows :: "database \<Rightarrow> connection \<Rightarrow> reminder list \<Rightarrow> database" where
  \<comment> \<open>the database after a committed statement that leaves these rows\<close>
  "with_rows self c rs = self\<lparr>conn := Some (c\<lparr>rows := rs\<rparr>)\<rparr>"

definition table :: "database \<Rightarrow> reminder list" where
  \<comment> \<open>the rows of the store, none without a connection\<close>
  "table self = (case conn self of None \<Rightarrow> [] | Some c \<Rightarrow> rows c)"

definition add_reminder ::
  "iso_parser \<Rightarrow> database \<Rightarrow> string \<Rightarrow> string \<Rightarrow> string \<Rightarrow> pyvalue result \<times> database" where
  \<comment> \<open>\<open>description or ""\<close> is the description itself, a text; the new id is one more than
      the larger of the counter and the largest id of the table, and when that does not
      fit the \<open>INSERT\<close> fails with an \<open>sqlite3.Error\<close>, which the function turns into
      \<open>RuntimeError\<close> after a rollback\<close>
  "add_reminder parse self title' description' due_datetime' =
     (case conn self of
        None \<Rightarrow> (Inl RuntimeError, self)
      | Some c \<Rightarrow>
          if title' = [] then (Inl ValueError, self)
          else if due_datetime' = [] then (Inl ValueError, self)
          else if parse due_datetime' = None then (Inl ValueError, self)
          else
            (let lastrowid = fold max (map rid (rows c)) (sint (seq c)) + 1;
                 row = \<lparr>rowid = word_of_int lastrowid, title = title',
                        description = description', due_datetime = due_datetime',
                        status = Pending\<rparr>
             in if fits_int64 lastrowid
                then (Inr (PyInt lastrowid),
                      self\<lparr>conn := Some (c\<lparr>rows := rows c @ [row],
                                             seq := word_of_int lastrowid\<rparr>)\<rparr>)
                else (Inl RuntimeError, self)))"

definition order_by_due_datetime :: "string \<Rightarrow> reminder list \<Rightarrow> reminder list" where
  \<comment> \<open>\<open>ORDER BY due_datetime ASC\<close> or \<open>DESC\<close>: the texts are compared as texts. SQL leaves
      the order of rows with equal keys open; SQLite returns them in table order under
      both, and so does the model.\<close>
  "order_by_due_datetime sort_order rs =
     (if sort_order = ''ASC'' then sort_key due_datetime rs
      else rev (sort_key due_datetime (rev rs)))"

definition get_reminders :: "database \<Rightarrow> string option \<Rightarrow> string \<Rightarrow> reminder list result" where
  "get_reminders self status_filter sort_order =
     (case conn self of
        None \<Rightarrow> Inl RuntimeError
      | Some c \<Rightarrow>
          if sort_order \<noteq> ''ASC'' \<and> sort_order \<noteq> ''DESC'' then Inl ValueError
          else
            (case status_filter of
               None \<Rightarrow> Inr (order_by_due_datetime sort_order (rows c))
             | Some f \<Rightarrow>
                 if f = [] then Inr (order_by_due_datetime sort_order (rows c))
                 else if f = All_statuses then Inr (order_by_due_datetime sort_order (rows c))
                 else if f \<notin> set [Pending, Completed, Overdue, Cancelled] then Inl ValueError
                 else Inr (order_by_due_datetime sort_order
                             (filter (\<lambda>r. status r = f) (rows c)))))"

definition update_reminder ::
  "iso_parser \<Rightarrow> database \<Rightarrow> int \<Rightarrow> string \<Rightarrow> string \<Rightarrow> string \<Rightarrow> pyvalue result \<times> database" where
  "update_reminder parse self reminder_id title' description' due_datetime' =
     (case conn self of
        None \<Rightarrow> (Inl RuntimeError, self)
      | Some c \<Rightarrow>
          if title' = [] then (Inl ValueError, self)
          else if reminder_id \<le> 0 then (Inl ValueError, self)
          else if due_datetime' = [] then (Inl ValueError, self)
          else if parse due_datetime' = None then (Inl ValueError, self)
          else if \<not> fits_int64 reminder_id then (Inl OverflowError, self)
          else (Inr PyNone,
                with_rows self c
                  (map (\<lambda>r. if rid r = reminder_id
                             then r\<lparr>title := title', description := description',
                                    due_datetime := due_datetime'\<rparr>
                             else r) (rows c))))"

definition update_reminder_status :: "database \<Rightarrow> int \<Rightarrow> string \<Rightarrow> pyvalue result \<times> database" where
  "update_reminder_status self reminder_id status' =
     (case conn self of
        None \<Rightarrow> (Inr PyNone, self)
      | Some c \<Rightarrow>
          if \<not> fits_int64 reminder_id then (Inl OverflowError, self)
          else (Inr PyNone,
                with_rows self c
                  (map (\<lambda>r. if rid r = reminder_id then r\<lparr>status := status'\<rparr> else r)
                     (rows c))))"

definition is_overdue :: "string \<Rightarrow> reminder \<Rightarrow> bool" where
  \<comment> \<open>the \<open>WHERE\<close> clause of \<open>update_overdue_reminders\<close>, a comparison of two texts\<close>
  "is_overdue buffer_iso r \<longleftrightarrow> status r = Pending \<and> due_datetime r < buffer_iso"

definition update_overdue_reminders ::
  "database \<Rightarrow> int \<Rightarrow> pyvalue result \<times> printed list \<times> database" where
  \<comment> \<open>the second argument is the clock as \<open>datetime.now()\<close> reads it inside the function\<close>
  "update_overdue_reminders self now =
     (case conn self of
        None \<Rightarrow> (Inl RuntimeError, [], self)
      | Some c \<Rightarrow>
          (case datetime_add now (- timedelta_minutes 2) of
             None \<Rightarrow> (Inl OverflowError, [], self)
           | Some buffer_time \<Rightarrow>
               (let buffer_iso = isoformat buffer_time;
                    updated_count = length (filter (is_overdue buffer_iso) (rows c));
                    db' = with_rows self c
                            (map (\<lambda>r. if is_overdue buffer_iso r then r\<lparr>status := Overdue\<rparr>
                                       else r) (rows c))
                in (Inr PyNone,
                    if updated_count > 0 then [DEBUG_marked_overdue updated_count] else [],
                    db'))))"

section \<open>Notifications (notifications.py)\<close>

text \<open>
  A notifier takes the title, the message, the reminder id and the application's
  \<open>active_notification_id\<close>, and gives back whether it returned or raised, and the slot
  it left. The store is out of its reach. \<open>send_notification\<close> is the program's own
  notifier: after its two checks it sets the slot when it was given an application and a
  non-zero id, and then tries its channels one after the other, each inside its own
  \<open>try\<close>, so that it returns normally whichever of them works.
\<close>

type_synonym notifier = "string \<Rightarrow> string \<Rightarrow> int \<Rightarrow> int option \<Rightarrow> unit result \<times> int option"

definition set_active_notification :: "int option \<Rightarrow> int \<Rightarrow> int option" where
  "set_active_notification slot reminder_id = Some reminder_id"

definition send_notification :: "bool \<Rightarrow> notifier" where
  \<comment> \<open>the first argument tells whether \<open>main_app\<close> was passed\<close>
  "send_notification main_app title' message reminder_id slot =
     (if title' = [] then (Inl ValueError, slot)
      else if message = [] then (Inl ValueError, slot)
      else (Inr (),
            if reminder_id \<noteq> 0 \<and> main_app then set_active_notification slot reminder_id
            else slot))"

section \<open>The scheduler's tick (scheduler.py)\<close>

text \<open>
  \<open>check_reminders\<close> reads the clock once at its start (\<open>now\<close>); the store reads it again
  inside \<open>update_overdue_reminders\<close> (\<open>now_store\<close>). The result is the store and the slot
  after the tick and the ids of the reminders for which the notifier was called, in
  order. What the notifier returns or raises is dropped, as the \<open>try\<close> around the call
  does; a reminder whose text does not parse (\<open>ValueError\<close>), or parses to an aware
  datetime, which cannot be compared with the naive clock (\<open>TypeError\<close>), is skipped, as
  the outer \<open>try\<close> does.
\<close>

fun process_reminders ::
  "notifier \<Rightarrow> iso_parser \<Rightarrow> int \<Rightarrow> reminder list \<Rightarrow> database \<Rightarrow> int option
     \<Rightarrow> database \<times> int option \<times> int list" where
  "process_reminders send parse now [] db slot = (db, slot, [])"
| "process_reminders send parse now (reminder # rest) db slot =
     (case parse (due_datetime reminder) of
        Some (Naive due) \<Rightarrow>
          if due \<le> now then
            (let sent = send (notification_title_prefix @ title reminder)
                          (if description reminder = [] then default_message
                           else description reminder)
                          (rid reminder) slot;
                 updated = update_reminder_status db (rid reminder) Completed;
                 done = process_reminders send parse now rest (snd updated) (snd sent)
             in (fst done, fst (snd done), rid reminder # snd (snd done)))
          else process_reminders send parse now rest db slot
      | _ \<Rightarrow> process_reminders send parse now rest db slot)"

definition check_reminders ::
  "notifier \<Rightarrow> iso_parser \<Rightarrow> database \<Rightarrow> int option \<Rightarrow> int \<Rightarrow> int
     \<Rightarrow> database \<times> int option \<times> int list" where
  "check_reminders send parse db slot now now_store =
     (case update_overdue_reminders db now_store of
        (Inl e, out, db1) \<Rightarrow> (db1, slot, [])
      | (Inr v, out, db1) \<Rightarrow>
          (case get_reminders db1 (Some Pending) ''ASC'' of
             Inl e \<Rightarrow> (db1, slot, [])
           | Inr pending_reminders \<Rightarrow> process_reminders send parse now pending_reminders db1 slot))"

section \<open>Snoozing (ui.py)\<close>

text \<open>
  Of the application object the model keeps the store and \<open>active_notification_id\<close>.
  \<open>_snooze_reminder\<close> ends in one of four message boxes; widgets and the redrawing of the
  list are left out. The clock is read once, after the lookup.
\<close>

record app =
  db :: database
  active_notification_id :: "int option"

datatype messagebox =
    Warning_no_active_notification
  | Error_not_found
  | Error_failed error
  | Info_snoozed

definition snooze_note :: "int \<Rightarrow> int \<Rightarrow> string" where
  \<comment> \<open>the text appended to the description\<close>
  "snooze_note minutes now =
     snooze_note_head @ str_int minutes @ snooze_note_mid @ strftime_HMS now"

definition snooze_reminder :: "iso_parser \<Rightarrow> app \<Rightarrow> int \<Rightarrow> int \<Rightarrow> messagebox \<times> app" where
  "snooze_reminder parse self minutes now =
     (case active_notification_id self of
        None \<Rightarrow> (Warning_no_active_notification, self)
      | Some active_id \<Rightarrow>
          (case get_reminders (db self) None ''ASC'' of
             Inl e \<Rightarrow> (Error_failed e, self)
           | Inr reminders \<Rightarrow>
               (case find (\<lambda>r. rid r = active_id) reminders of
                  None \<Rightarrow> (Error_not_found, self\<lparr>active_notification_id := None\<rparr>)
                | Some active_reminder \<Rightarrow>
                    (case datetime_add now (timedelta_minutes minutes) of
                       None \<Rightarrow> (Error_failed OverflowError, self)
                     | Some new_due_time \<Rightarrow>
                         (case update_reminder parse (db self) active_id (title active_reminder)
                                 (description active_reminder @ snooze_note minutes now)
                                 (isoformat new_due_time) of
                            (Inl e, db') \<Rightarrow> (Error_failed e, self\<lparr>db := db'\<rparr>)
                          | (Inr v, db') \<Rightarrow>
                              (Info_snoozed,
                               self\<lparr>db := db', active_notification_id := None\<rparr>))))))"

section \<open>Notions used in the statements\<close>

definition status_changes :: "string \<Rightarrow> string \<Rightarrow> reminder list \<Rightarrow> reminder list \<Rightarrow> nat" where
  \<comment> \<open>the number of rows whose status is \<open>a\<close> in the old table and \<open>b\<close> in the new one\<close>
  "status_changes a b old new =
     length (filter (\<lambda>p. status (fst p) = a \<and> status (snd p) = b) (zip old new))"

definition fires :: "iso_parser \<Rightarrow> int \<Rightarrow> reminder \<Rightarrow> bool" where
  \<comment> \<open>the test of the tick's loop: the text parses to a naive datetime that is not after
      the clock\<close>
  "fires parse now r =
     (case parse (due_datetime r) of Some (Naive due) \<Rightarrow> due \<le> now | _ \<Rightarrow> False)"

definition complete_all :: "int set \<Rightarrow> reminder list \<Rightarrow> reminder list" where
  \<comment> \<open>the table after the status of every row with one of these ids is set to
      \<open>Completed\<close>\<close>
  "complete_all ids rs = map (\<lambda>r. if rid r \<in> ids then r\<lparr>status := Completed\<rparr> else r) rs"

definition raising_notifier :: notifier where
  \<comment> \<open>a notifier whose every delivery fails\<close>
  "raising_notifier title' message reminder_id slot = (Inl RuntimeError, slot)"

abbreviation Row :: "64 word \<Rightarrow> string \<Rightarrow> string \<Rightarrow> string \<Rightarrow> string \<Rightarrow> reminder" where
  "Row i t d due st \<equiv>
     \<lparr>rowid = i, title = t, description = d, due_datetime = due, status = st\<rparr>"

abbreviation Store :: "reminder list \<Rightarrow> 64 word \<Rightarrow> database" where
  "Store rs n \<equiv> \<lparr>conn = Some \<lparr>rows = rs, seq = n\<rparr>\<rparr>"

section \<open>Auxiliary facts\<close>

lemma status_literals_distinct:
  "Pending \<noteq> Overdue" "Pending \<noteq> Completed" "Pending \<noteq> Cancelled"
  "Overdue \<noteq> Completed" "Overdue \<noteq> Cancelled" "Completed \<noteq> Cancelled"
  by (simp_all add: Pending_def Overdue_def Completed_def Cancelled_def)

lemma with_rows_same: "conn self = Some c \<Longrightarrow> with_rows self c (rows c) = self"
  by (simp add: with_rows_def)

lemma table_with_rows: "table (with_rows self c rs) = rs"
  by (simp add: with_rows_def table_def)

lemma rid_fits: "fits_int64 (rid r)"
proof -
  have "- (2 ^ 63) \<le> sint (rowid r)" and "sint (rowid r) < 2 ^ 63"
    using sint_ge [of "rowid r"] sint_lt [of "rowid r"] by simp_all
  then show ?thesis
    by (simp add: rid_def fits_int64_def)
qed

lemma rid_updates [simp]:
  "rid (r\<lparr>status := s\<rparr>) = rid r"
  "rid (r\<lparr>title := t, description := d, due_datetime := due\<rparr>) = rid r"
  by (simp_all add: rid_def)

lemma get_reminders_without_connection:
  "conn self = None \<Longrightarrow> get_reminders self status_filter sort_order = Inl RuntimeError"
  by (simp add: get_reminders_def)

lemma map_unchanged:
  "reminder_id \<notin> rid ` set rs \<Longrightarrow>
   map (\<lambda>r. if rid r = reminder_id then f r else r) rs = rs"
  by (induction rs) auto

lemma filter_overdue_after:
  "filter (is_overdue b) (map (\<lambda>r. if is_overdue b r then r\<lparr>status := Overdue\<rparr> else r) rs) = []"
  by (induction rs) (simp_all add: is_overdue_def status_literals_distinct(1)[symmetric])

lemma map_overdue_after:
  "map (\<lambda>r. if is_overdue b r then r\<lparr>status := Overdue\<rparr> else r)
     (map (\<lambda>r. if is_overdue b r then r\<lparr>status := Overdue\<rparr> else r) rs)
   = map (\<lambda>r. if is_overdue b r then r\<lparr>status := Overdue\<rparr> else r) rs"
  by (induction rs) (simp_all add: is_overdue_def status_literals_distinct(1)[symmetric])

lemma status_changes_overdue:
  "status_changes Pending Overdue rs
     (map (\<lambda>r. if is_overdue b r then r\<lparr>status := Overdue\<rparr> else r) rs)
   = length (filter (is_overdue b) rs)"
  by (induction rs) (auto simp: status_changes_def is_overdue_def status_literals_distinct)

lemma process_fired:
  "snd (snd (process_reminders send parse now rs d slot)) = map rid (filter (fires parse now) rs)"
  by (induction rs arbitrary: d slot)
     (auto simp: fires_def Let_def split: option.splits parsed_datetime.splits)

lemma table_update_status:
  "fits_int64 i \<Longrightarrow>
   table (snd (update_reminder_status d i Completed)) = complete_all {i} (table d)"
  by (auto simp: update_reminder_status_def table_def with_rows_def complete_all_def
      split: option.splits)

lemma complete_all_twice: "complete_all A (complete_all B rs) = complete_all (A \<union> B) rs"
  by (induction rs) (auto simp: complete_all_def)

lemma complete_all_empty: "complete_all {} rs = rs"
  by (simp add: complete_all_def)

lemma process_table:
  "table (fst (process_reminders send parse now rs d slot))
   = complete_all (rid ` set (filter (fires parse now) rs)) (table d)"
proof (induction rs arbitrary: d slot)
  case Nil
  then show ?case by (simp add: complete_all_empty)
next
  case (Cons r rs)
  show ?case
  proof (cases "fires parse now r")
    case True
    then obtain due where due: "parse (due_datetime r) = Some (Naive due)" "due \<le> now"
      by (auto simp: fires_def split: option.splits parsed_datetime.splits)
    have "table (fst (process_reminders send parse now (r # rs) d slot))
          = complete_all (rid ` set (filter (fires parse now) rs)) (complete_all {rid r} (table d))"
      using due by (simp add: Let_def Cons.IH table_update_status rid_fits)
    also have "\<dots> = complete_all (rid ` set (filter (fires parse now) (r # rs))) (table d)"
      using True by (simp add: complete_all_twice Un_commute)
    finally show ?thesis .
  next
    case False
    then have "process_reminders send parse now (r # rs) d slot = process_reminders send parse now rs d slot"
      by (auto simp: fires_def split: option.splits parsed_datetime.splits)
    with False show ?thesis by (simp add: Cons.IH)
  qed
qed

lemma get_reminders_subset:
  "get_reminders d f so = Inr rs \<Longrightarrow> set rs \<subseteq> set (table d)"
  by (auto simp: get_reminders_def table_def order_by_due_datetime_def
      split: option.splits if_splits)

text \<open>
  Neither \<open>update_reminder\<close> nor \<open>_snooze_reminder\<close> writes the status column: whatever
  the outcome of a snooze, every row keeps the status it had.
\<close>

lemma update_reminder_keeps_statuses:
  "update_reminder parse self reminder_id title' description' due_datetime' = (returned, self')
   \<Longrightarrow>
   map status (table self') = map status (table self)"
  by (auto simp: update_reminder_def table_def with_rows_def split: option.splits if_splits)

lemma snooze_reminder_keeps_statuses:
  "map status (table (db (snd (snooze_reminder parse self minutes now))))
   = map status (table (db self))"
  by (auto simp: snooze_reminder_def split: option.splits sum.splits prod.splits
      dest: update_reminder_keeps_statuses)

section \<open>Claims\<close>

text \<open>
  Claim C1 (snooze of a reminder that the tick has fired). The scheduler fires the reminder
  with id 1 at 10:00:00: it calls the notifier, which puts the id into the slot, and sets
  the status to \<open>Completed\<close>. Snoozing by 15 minutes at 10:00:05 then stores the due text
  of 10:15:05, appends the note to the description and empties the slot, and it leaves the
  status \<open>Completed\<close>: \<open>update_reminder\<close> does not write the status column and
  \<open>_snooze_reminder\<close> makes no other call, so the status is not \<open>Pending\<close>.
\<close>

theorem snooze_after_firing_keeps_completed:
  "check_reminders (send_notification True) fromisoformat
     (Store [Row 1 ''A'' ''B'' ''2024-01-01T10:00:00'' Pending] 1)
     None (datetime 2024 1 1 10 0 0 0) (datetime 2024 1 1 10 0 0 0)
   = (Store [Row 1 ''A'' ''B'' ''2024-01-01T10:00:00'' Completed] 1, Some 1, [1])
   \<and> snooze_reminder fromisoformat
       \<lparr>db = Store [Row 1 ''A'' ''B'' ''2024-01-01T10:00:00'' Completed] 1,
        active_notification_id = Some 1\<rparr>
       15 (datetime 2024 1 1 10 0 5 0)
     = (Info_snoozed,
        \<lparr>db = Store [Row 1 ''A''
                      (''B'' @ snooze_note_head @ ''15'' @ snooze_note_mid @ ''10:00:05'')
                      ''2024-01-01T10:15:05'' Completed] 1,
         active_notification_id = None\<rparr>)
   \<and> isoformat (datetime 2024 1 1 10 0 5 0 + timedelta_minutes 15) = ''2024-01-01T10:15:05''
   \<and> Completed \<noteq> Pending"
  by code_simp

text \<open>
  Claim C2. When the slot is empty, \<open>_snooze_reminder\<close> ends in the warning that there is
  no active notification, whatever the minutes and the clock, and the application, its
  store included, is as it was.
\<close>

theorem snooze_without_active_notification:
  "active_notification_id self = None \<Longrightarrow>
   snooze_reminder parse self minutes now = (Warning_no_active_notification, self)"
  by (simp add: snooze_reminder_def)

theorem snooze_without_active_notification_witness:
  "active_notification_id
     \<lparr>db = Store [Row 1 ''A'' ''B'' ''2024-01-01T10:00:00'' Completed] 1,
      active_notification_id = None\<rparr> = None
   \<and> snooze_reminder fromisoformat
       \<lparr>db = Store [Row 1 ''A'' ''B'' ''2024-01-01T10:00:00'' Completed] 1,
        active_notification_id = None\<rparr>
       15 (datetime 2024 1 1 10 0 5 0)
     = (Warning_no_active_notification,
        \<lparr>db = Store [Row 1 ''A'' ''B'' ''2024-01-01T10:00:00'' Completed] 1,
         active_notification_id = None\<rparr>)"
  using snooze_without_active_notification
    [of "\<lparr>db = Store [Row 1 ''A'' ''B'' ''2024-01-01T10:00:00'' Completed] 1,
          active_notification_id = None\<rparr>" fromisoformat 15 "datetime 2024 1 1 10 0 5 0"]
  by simp

text \<open>
  Claim C3, as the code has it. \<open>update_overdue_reminders\<close> returns \<open>None\<close>. On a store with
  a connection, the clock being at least two minutes after \<open>datetime.min\<close>, the number of
  rows whose status went from \<open>Pending\<close> to \<open>Overdue\<close> is what the debug line prints, and
  the line is printed only when that number is positive.
\<close>

theorem update_overdue_reminders_returns_none:
  assumes "conn store = Some c" and "timedelta_minutes 2 \<le> now" and "now \<le> MAX_DATETIME"
  shows "case update_overdue_reminders store now of
           (returned, out, store') \<Rightarrow>
             returned = Inr PyNone \<and>
             out = (let n = status_changes Pending Overdue (table store) (table store')
                    in if 0 < n then [DEBUG_marked_overdue n] else [])"
proof -
  let ?b = "isoformat (now - timedelta_minutes 2)"
  let ?n = "length (filter (is_overdue ?b) (rows c))"
  let ?rs = "map (\<lambda>r. if is_overdue ?b r then r\<lparr>status := Overdue\<rparr> else r) (rows c)"
  have buffer: "datetime_add now (- timedelta_minutes 2) = Some (now - timedelta_minutes 2)"
    using assms(2,3) by (simp add: datetime_add_def timedelta_minutes_def)
  have run: "update_overdue_reminders store now
             = (Inr PyNone, if 0 < ?n then [DEBUG_marked_overdue ?n] else [], with_rows store c ?rs)"
    using assms(1) buffer by (simp add: update_overdue_reminders_def Let_def)
  have old: "table store = rows c"
    using assms(1) by (simp add: table_def)
  have "status_changes Pending Overdue (table store) (table (with_rows store c ?rs)) = ?n"
    by (simp only: old table_with_rows status_changes_overdue)
  then show ?thesis
    by (simp add: run Let_def)
qed

theorem update_overdue_reminders_returns_none_witness:
  "conn (Store [Row 1 ''A'' [] ''2024-01-01T09:00:00'' Pending,
                Row 2 ''B'' [] ''2024-01-01T09:59:00'' Pending] 2)
     = Some \<lparr>rows = [Row 1 ''A'' [] ''2024-01-01T09:00:00'' Pending,
                     Row 2 ''B'' [] ''2024-01-01T09:59:00'' Pending], seq = 2\<rparr>
   \<and> timedelta_minutes 2 \<le> datetime 2024 1 1 10 0 0 0
   \<and> datetime 2024 1 1 10 0 0 0 \<le> MAX_DATETIME
   \<and> update_overdue_reminders
        (Store [Row 1 ''A'' [] ''2024-01-01T09:00:00'' Pending,
                Row 2 ''B'' [] ''2024-01-01T09:59:00'' Pending] 2)
        (datetime 2024 1 1 10 0 0 0)
      = (Inr PyNone, [DEBUG_marked_overdue 1],
         Store [Row 1 ''A'' [] ''2024-01-01T09:00:00'' Overdue,
                Row 2 ''B'' [] ''2024-01-01T09:59:00'' Pending] 2)
   \<and> status_changes Pending Overdue
        [Row 1 ''A'' [] ''2024-01-01T09:00:00'' Pending,
         Row 2 ''B'' [] ''2024-01-01T09:59:00'' Pending]
        [Row 1 ''A'' [] ''2024-01-01T09:00:00'' Overdue,
         Row 2 ''B'' [] ''2024-01-01T09:59:00'' Pending] = 1"
proof -
  let ?store = "Store [Row 1 ''A'' [] ''2024-01-01T09:00:00'' Pending,
                       Row 2 ''B'' [] ''2024-01-01T09:59:00'' Pending] 2"
  let ?now = "datetime 2024 1 1 10 0 0 0"
  have c: "conn ?store = Some \<lparr>rows = [Row 1 ''A'' [] ''2024-01-01T09:00:00'' Pending,
                     Row 2 ''B'' [] ''2024-01-01T09:59:00'' Pending], seq = 2\<rparr>"
    by simp
  have lo: "timedelta_minutes 2 \<le> ?now" by code_simp
  have hi: "?now \<le> MAX_DATETIME" by code_simp
  have run: "update_overdue_reminders ?store ?now
      = (Inr PyNone, [DEBUG_marked_overdue 1],
         Store [Row 1 ''A'' [] ''2024-01-01T09:00:00'' Overdue,
                Row 2 ''B'' [] ''2024-01-01T09:59:00'' Pending] 2)"
    by code_simp
  show ?thesis
    using update_overdue_reminders_returns_none [OF c lo hi] c lo hi
    by (simp add: run table_def Let_def split: if_splits)
qed

text \<open>
  Claim C3 as stated fails: with one row that goes from \<open>Pending\<close> to \<open>Overdue\<close>, the call
  returns \<open>None\<close> and not the number 1, which is only printed.
\<close>

theorem update_overdue_reminders_return_counterexample:
  "update_overdue_reminders (Store [Row 1 ''A'' [] ''2024-01-01T09:00:00'' Pending] 1)
     (datetime 2024 1 1 10 0 0 0)
   = (Inr PyNone, [DEBUG_marked_overdue 1],
      Store [Row 1 ''A'' [] ''2024-01-01T09:00:00'' Overdue] 1)
   \<and> Inr PyNone \<noteq> (Inr (PyInt 1) :: pyvalue result)"
  by code_simp

text \<open>
  Claim C4 (the grace period of two minutes). The text \<open>2024-01-01 09:58:01\<close>, with a
  space where \<open>isoformat\<close> writes \<open>T\<close>, is a due time that \<open>add_reminder\<close> accepts; it is
  the instant 119 seconds before the clock 10:00:00. \<open>update_overdue_reminders\<close> at that
  clock sets its row to \<open>Overdue\<close>, because the space is smaller than the \<open>T\<close> of the
  buffer text \<open>2024-01-01T09:58:00\<close>; the row with the same instant written with \<open>T\<close>
  stays \<open>Pending\<close>.
\<close>

theorem update_overdue_reminders_inside_grace:
  "fromisoformat ''2024-01-01 09:58:01''
     = Some (Naive (datetime 2024 1 1 10 0 0 0 - 119 * 1000000))
   \<and> fromisoformat ''2024-01-01T09:58:01''
     = Some (Naive (datetime 2024 1 1 10 0 0 0 - 119 * 1000000))
   \<and> add_reminder fromisoformat (Store [] 0) ''A'' [] ''2024-01-01 09:58:01''
     = (Inr (PyInt 1), Store [Row 1 ''A'' [] ''2024-01-01 09:58:01'' Pending] 1)
   \<and> add_reminder fromisoformat (Store [Row 1 ''A'' [] ''2024-01-01 09:58:01'' Pending] 1)
        ''B'' [] ''2024-01-01T09:58:01''
     = (Inr (PyInt 2), Store [Row 1 ''A'' [] ''2024-01-01 09:58:01'' Pending,
                              Row 2 ''B'' [] ''2024-01-01T09:58:01'' Pending] 2)
   \<and> update_overdue_reminders
        (Store [Row 1 ''A'' [] ''2024-01-01 09:58:01'' Pending,
                Row 2 ''B'' [] ''2024-01-01T09:58:01'' Pending] 2)
        (datetime 2024 1 1 10 0 0 0)
     = (Inr PyNone, [DEBUG_marked_overdue 1],
        Store [Row 1 ''A'' [] ''2024-01-01 09:58:01'' Overdue,
               Row 2 ''B'' [] ''2024-01-01T09:58:01'' Pending] 2)"
  by code_simp

text \<open>
  Claim C5. In a tick whose first two steps succeed, every reminder of the list fetched in
  step 2 whose due text parses to a naive datetime not after the tick's clock is passed to
  the notifier, and its row ends the tick with the status \<open>Completed\<close>. This holds for
  every notifier, so also for one that raises at each call, and whatever the other rows of
  the list are, so also when some of them cannot be processed.
\<close>

theorem tick_completes_due_reminders:
  assumes "update_overdue_reminders store now_store = (Inr v, out, store1)"
      and "get_reminders store1 (Some Pending) ''ASC'' = Inr pending"
      and "r \<in> set pending"
      and "parse (due_datetime r) = Some (Naive due)" and "due \<le> now"
  shows "rid r \<in> set (snd (snd (check_reminders send parse store slot now now_store)))
         \<and> r\<lparr>status := Completed\<rparr>
             \<in> set (table (fst (check_reminders send parse store slot now now_store)))"
proof -
  have tick: "check_reminders send parse store slot now now_store
              = process_reminders send parse now pending store1 slot"
    using assms(1,2) by (simp add: check_reminders_def)
  have "fires parse now r"
    using assms(4,5) by (simp add: fires_def)
  then have fired: "rid r \<in> rid ` set (filter (fires parse now) pending)"
    using assms(3) by auto
  have "r \<in> set (table store1)"
    using get_reminders_subset [OF assms(2)] assms(3) by blast
  with fired show ?thesis
    by (auto simp: tick process_fired process_table complete_all_def)
qed

theorem tick_completes_due_reminders_witness:
  "update_overdue_reminders
     (Store [Row 1 ''A'' [] ''2024-01-01T09:58:xx'' Pending,
             Row 2 ''B'' [] ''2024-01-01T09:59:30'' Pending,
             Row 3 ''C'' [] ''2024-01-01T10:00:00'' Pending] 3)
     (datetime 2024 1 1 10 0 0 0)
   = (Inr PyNone, [],
      Store [Row 1 ''A'' [] ''2024-01-01T09:58:xx'' Pending,
             Row 2 ''B'' [] ''2024-01-01T09:59:30'' Pending,
             Row 3 ''C'' [] ''2024-01-01T10:00:00'' Pending] 3)
   \<and> get_reminders
       (Store [Row 1 ''A'' [] ''2024-01-01T09:58:xx'' Pending,
               Row 2 ''B'' [] ''2024-01-01T09:59:30'' Pending,
               Row 3 ''C'' [] ''2024-01-01T10:00:00'' Pending] 3)
       (Some Pending) ''ASC''
     = Inr [Row 1 ''A'' [] ''2024-01-01T09:58:xx'' Pending,
            Row 2 ''B'' [] ''2024-01-01T09:59:30'' Pending,
            Row 3 ''C'' [] ''2024-01-01T10:00:00'' Pending]
   \<and> fromisoformat ''2024-01-01T09:58:xx'' = None
   \<and> fromisoformat ''2024-01-01T10:00:00'' = Some (Naive (datetime 2024 1 1 10 0 0 0))
   \<and> 3 \<in> set (snd (snd (check_reminders raising_notifier fromisoformat
         (Store [Row 1 ''A'' [] ''2024-01-01T09:58:xx'' Pending,
                 Row 2 ''B'' [] ''2024-01-01T09:59:30'' Pending,
                 Row 3 ''C'' [] ''2024-01-01T10:00:00'' Pending] 3)
         None (datetime 2024 1 1 10 0 0 0) (datetime 2024 1 1 10 0 0 0))))
   \<and> Row 3 ''C'' [] ''2024-01-01T10:00:00'' Completed
       \<in> set (table (fst (check_reminders raising_notifier fromisoformat
           (Store [Row 1 ''A'' [] ''2024-01-01T09:58:xx'' Pending,
                   Row 2 ''B'' [] ''2024-01-01T09:59:30'' Pending,
                   Row 3 ''C'' [] ''2024-01-01T10:00:00'' Pending] 3)
           None (datetime 2024 1 1 10 0 0 0) (datetime 2024 1 1 10 0 0 0))))"
proof -
  let ?rows = "[Row 1 ''A'' [] ''2024-01-01T09:58:xx'' Pending,
                Row 2 ''B'' [] ''2024-01-01T09:59:30'' Pending,
                Row 3 ''C'' [] ''2024-01-01T10:00:00'' Pending]"
  let ?now = "datetime 2024 1 1 10 0 0 0"
  have step1: "update_overdue_reminders (Store ?rows 3) ?now = (Inr PyNone, [], Store ?rows 3)"
    by code_simp
  have step2: "get_reminders (Store ?rows 3) (Some Pending) ''ASC'' = Inr ?rows"
    by code_simp
  have member: "Row 3 ''C'' [] ''2024-01-01T10:00:00'' Pending \<in> set ?rows"
    by simp
  have parsed: "fromisoformat (due_datetime (Row 3 ''C'' [] ''2024-01-01T10:00:00'' Pending))
                = Some (Naive ?now)"
    by code_simp
  have bad: "fromisoformat ''2024-01-01T09:58:xx'' = None"
    by code_simp
  have due: "?now \<le> ?now"
    by simp
  show ?thesis
    using tick_completes_due_reminders
        [where parse = fromisoformat and send = raising_notifier and slot = None,
         OF step1 step2 member parsed due]
      step1 step2 parsed bad
    by (simp add: rid_def)
qed

text \<open>
  Claim C6. \<open>update_overdue_reminders\<close> is idempotent at a fixed clock: run on the store
  that a first run left, it returns what the first run returned, prints no count (its
  \<open>UPDATE\<close> matches no row) and leaves that store as it is. This holds for every store and
  every clock, the failing runs included.
\<close>

theorem update_overdue_reminders_idempotent:
  "update_overdue_reminders (snd (snd (update_overdue_reminders store now))) now
   = (fst (update_overdue_reminders store now), [],
      snd (snd (update_overdue_reminders store now)))"
  by (auto simp: update_overdue_reminders_def Let_def with_rows_def filter_overdue_after
      map_overdue_after split: option.splits)

theorem update_overdue_reminders_idempotent_witness:
  "update_overdue_reminders (Store [Row 1 ''A'' [] ''2024-01-01T09:00:00'' Pending] 1)
     (datetime 2024 1 1 10 0 0 0)
   = (Inr PyNone, [DEBUG_marked_overdue 1],
      Store [Row 1 ''A'' [] ''2024-01-01T09:00:00'' Overdue] 1)
   \<and> update_overdue_reminders (Store [Row 1 ''A'' [] ''2024-01-01T09:00:00'' Overdue] 1)
       (datetime 2024 1 1 10 0 0 0)
     = (Inr PyNone, [], Store [Row 1 ''A'' [] ''2024-01-01T09:00:00'' Overdue] 1)"
proof -
  have first: "update_overdue_reminders (Store [Row 1 ''A'' [] ''2024-01-01T09:00:00'' Pending] 1)
                 (datetime 2024 1 1 10 0 0 0)
               = (Inr PyNone, [DEBUG_marked_overdue 1],
                  Store [Row 1 ''A'' [] ''2024-01-01T09:00:00'' Overdue] 1)"
    by code_simp
  show ?thesis
    using update_overdue_reminders_idempotent
      [of "Store [Row 1 ''A'' [] ''2024-01-01T09:00:00'' Pending] 1" "datetime 2024 1 1 10 0 0 0"]
    by (simp add: first)
qed

text \<open>
  Claim C7. For the id of a row of the store, \<open>update_reminder\<close> with an empty title, or
  with a due text that is empty or that the parser rejects, raises \<open>ValueError\<close>, and the
  store, that row included, is as it was before the call.
\<close>

theorem update_reminder_rejects_invalid:
  "reminder_id \<in> rid ` set (table store) \<Longrightarrow>
   title' = [] \<or> due_datetime' = [] \<or> parse due_datetime' = None \<Longrightarrow>
   update_reminder parse store reminder_id title' description' due_datetime'
   = (Inl ValueError, store)"
  by (cases "conn store") (auto simp: update_reminder_def table_def)

theorem update_reminder_rejects_invalid_witness:
  "1 \<in> rid ` set (table (Store [Row 1 ''A'' ''B'' ''2024-01-01T10:00:00'' Pending] 1))
   \<and> fromisoformat ''tomorrow'' = None
   \<and> update_reminder fromisoformat (Store [Row 1 ''A'' ''B'' ''2024-01-01T10:00:00'' Pending] 1)
        1 ''A'' ''B'' ''tomorrow''
     = (Inl ValueError, Store [Row 1 ''A'' ''B'' ''2024-01-01T10:00:00'' Pending] 1)
   \<and> update_reminder fromisoformat (Store [Row 1 ''A'' ''B'' ''2024-01-01T10:00:00'' Pending] 1)
        1 [] ''B'' ''2024-01-02T10:00:00''
     = (Inl ValueError, Store [Row 1 ''A'' ''B'' ''2024-01-01T10:00:00'' Pending] 1)"
proof -
  let ?store = "Store [Row 1 ''A'' ''B'' ''2024-01-01T10:00:00'' Pending] 1"
  have existing: "1 \<in> rid ` set (table ?store)"
    by (simp add: table_def rid_def)
  have unparseable: "fromisoformat ''tomorrow'' = None"
    by code_simp
  show ?thesis
    using update_reminder_rejects_invalid
        [OF existing, of "''A''" "''tomorrow''" fromisoformat "''B''"]
      update_reminder_rejects_invalid
        [OF existing, of "[]" "''2024-01-02T10:00:00''" fromisoformat "''B''"]
      existing unparseable
    by simp
qed

text \<open>
  Claim C8, as the code has it. For an id that no row of the store has and that fits a
  signed integer of 64 bits, \<open>update_reminder_status\<close> returns normally, whatever the
  status it is given, and the store is as it was: no row is changed and none is created.
\<close>

theorem update_reminder_status_missing_id:
  "reminder_id \<notin> rid ` set (table store) \<Longrightarrow> fits_int64 reminder_id \<Longrightarrow>
   update_reminder_status store reminder_id status' = (Inr PyNone, store)"
  by (auto simp: update_reminder_status_def table_def map_unchanged with_rows_same
      split: option.splits)

theorem update_reminder_status_missing_id_witness:
  "7 \<notin> rid ` set (table (Store [Row 1 ''A'' ''B'' ''2024-01-01T10:00:00'' Pending] 1))
   \<and> fits_int64 7
   \<and> update_reminder_status (Store [Row 1 ''A'' ''B'' ''2024-01-01T10:00:00'' Pending] 1)
        7 Completed
     = (Inr PyNone, Store [Row 1 ''A'' ''B'' ''2024-01-01T10:00:00'' Pending] 1)"
proof -
  have missing: "7 \<notin> rid ` set (table (Store [Row 1 ''A'' ''B'' ''2024-01-01T10:00:00'' Pending] 1))"
    by (simp add: table_def rid_def)
  have fits: "fits_int64 7"
    by (simp add: fits_int64_def)
  show ?thesis
    using update_reminder_status_missing_id [OF missing fits, of Completed] missing fits
    by simp
qed

text \<open>
  Claim C8 as stated fails: the id \<open>2 ^ 63\<close>, which no row can have, does not fit the
  \<open>INTEGER\<close> it is bound to, and on a store with a connection the call raises
  \<open>OverflowError\<close>; the store is as it was.
\<close>

theorem update_reminder_status_large_id_counterexample:
  "9223372036854775808
     \<notin> rid ` set (table (Store [Row 1 ''A'' ''B'' ''2024-01-01T10:00:00'' Pending] 1))
   \<and> update_reminder_status (Store [Row 1 ''A'' ''B'' ''2024-01-01T10:00:00'' Pending] 1)
        9223372036854775808 Completed
     = (Inl OverflowError, Store [Row 1 ''A'' ''B'' ''2024-01-01T10:00:00'' Pending] 1)"
  by (simp add: update_reminder_status_def fits_int64_def table_def rid_def)

text \<open>
  Claim C9, as the code has it. On a store with a connection, \<open>get_reminders\<close> raises
  \<open>ValueError\<close> for every sort order other than \<open>ASC\<close> and \<open>DESC\<close>, and for every
  non-empty status filter that is neither the word for all nor one of the four statuses.
  The empty text as a filter is accepted and selects what no filter selects.
\<close>

theorem get_reminders_validation:
  assumes "conn store = Some c"
  shows "(sort_order \<noteq> ''ASC'' \<and> sort_order \<noteq> ''DESC''
            \<longrightarrow> get_reminders store status_filter sort_order = Inl ValueError)
         \<and> (f \<noteq> [] \<and> f \<noteq> All_statuses \<and> f \<notin> set [Pending, Completed, Overdue, Cancelled]
            \<longrightarrow> get_reminders store (Some f) sort_order = Inl ValueError)
         \<and> get_reminders store (Some []) sort_order = get_reminders store None sort_order"
  using assms by (auto simp: get_reminders_def)

theorem get_reminders_validation_witness:
  "get_reminders (Store [Row 1 ''A'' [] ''2024-01-01T10:00:00'' Pending] 1)
     (Some Pending) ''asc'' = Inl ValueError
   \<and> get_reminders (Store [Row 1 ''A'' [] ''2024-01-01T10:00:00'' Pending] 1)
       (Some ''Pending'') ''ASC'' = Inl ValueError
   \<and> get_reminders (Store [Row 1 ''A'' [] ''2024-01-01T10:00:00'' Pending] 1)
       (Some []) ''ASC''
     = get_reminders (Store [Row 1 ''A'' [] ''2024-01-01T10:00:00'' Pending] 1) None ''ASC''"
proof -
  let ?store = "Store [Row 1 ''A'' [] ''2024-01-01T10:00:00'' Pending] 1"
  have c: "conn ?store = Some \<lparr>rows = [Row 1 ''A'' [] ''2024-01-01T10:00:00'' Pending], seq = 1\<rparr>"
    by simp
  have unknown: "''Pending'' \<noteq> [] \<and> ''Pending'' \<noteq> All_statuses
                 \<and> ''Pending'' \<notin> set [Pending, Completed, Overdue, Cancelled]"
    by code_simp
  show ?thesis
    using get_reminders_validation [OF c, of "''asc''" "Some Pending" "''Pending''"]
      get_reminders_validation [OF c, of "''ASC''" "Some ''Pending''" "''Pending''"]
      unknown
    by simp
qed

text \<open>
  Claim C9 as stated fails twice. The empty text is neither the word for all nor one of the
  four statuses, and \<open>get_reminders\<close> with it as the filter returns the rows, all of them.
  And on a \<open>Database\<close> whose connection failed, an unknown sort order gives
  \<open>RuntimeError\<close>, the check of the cursor coming first.
\<close>

theorem get_reminders_empty_filter_counterexample:
  "[] \<noteq> All_statuses \<and> [] \<notin> set [Pending, Completed, Overdue, Cancelled]
   \<and> get_reminders (Store [Row 1 ''A'' [] ''2024-01-01T10:00:00'' Pending,
                           Row 2 ''B'' [] ''2024-01-01T09:00:00'' Completed] 2)
        (Some []) ''ASC''
     = Inr [Row 2 ''B'' [] ''2024-01-01T09:00:00'' Completed,
            Row 1 ''A'' [] ''2024-01-01T10:00:00'' Pending]
   \<and> get_reminders \<lparr>conn = None\<rparr> None ''sideways'' = Inl RuntimeError"
  by code_simp

text \<open>
  Claim C10 (a reminder long past due at the start of a tick). The text
  \<open>2024-01-01t08:00:00\<close>, with a small \<open>t\<close> between date and time, is a due time that
  \<open>add_reminder\<close> accepts; it is the instant two hours before the clock 10:00:00. In the
  tick at that clock its row is not set to \<open>Overdue\<close>, because the small \<open>t\<close> is greater
  than the \<open>T\<close> of the buffer text \<open>2024-01-01T09:58:00\<close>; it stays in the pending list,
  the notifier is called for it and its status becomes \<open>Completed\<close>. The row with the same
  instant written with \<open>T\<close> becomes \<open>Overdue\<close> and is not notified.
\<close>

theorem tick_fires_reminder_past_grace:
  "fromisoformat ''2024-01-01t08:00:00''
     = Some (Naive (datetime 2024 1 1 10 0 0 0 - timedelta_minutes 120))
   \<and> fromisoformat ''2024-01-01T08:00:00''
     = Some (Naive (datetime 2024 1 1 10 0 0 0 - timedelta_minutes 120))
   \<and> add_reminder fromisoformat (Store [] 0) ''A'' [] ''2024-01-01t08:00:00''
     = (Inr (PyInt 1), Store [Row 1 ''A'' [] ''2024-01-01t08:00:00'' Pending] 1)
   \<and> add_reminder fromisoformat (Store [Row 1 ''A'' [] ''2024-01-01t08:00:00'' Pending] 1)
        ''B'' [] ''2024-01-01T08:00:00''
     = (Inr (PyInt 2), Store [Row 1 ''A'' [] ''2024-01-01t08:00:00'' Pending,
                              Row 2 ''B'' [] ''2024-01-01T08:00:00'' Pending] 2)
   \<and> update_overdue_reminders
        (Store [Row 1 ''A'' [] ''2024-01-01t08:00:00'' Pending,
                Row 2 ''B'' [] ''2024-01-01T08:00:00'' Pending] 2)
        (datetime 2024 1 1 10 0 0 0)
     = (Inr PyNone, [DEBUG_marked_overdue 1],
        Store [Row 1 ''A'' [] ''2024-01-01t08:00:00'' Pending,
               Row 2 ''B'' [] ''2024-01-01T08:00:00'' Overdue] 2)
   \<and> check_reminders (send_notification True) fromisoformat
        (Store [Row 1 ''A'' [] ''2024-01-01t08:00:00'' Pending,
                Row 2 ''B'' [] ''2024-01-01T08:00:00'' Pending] 2)
        None (datetime 2024 1 1 10 0 0 0) (datetime 2024 1 1 10 0 0 0)
     = (Store [Row 1 ''A'' [] ''2024-01-01t08:00:00'' Completed,
               Row 2 ''B'' [] ''2024-01-01T08:00:00'' Overdue] 2, Some 1, [1])"
  by code_simp

end
